theory Spec2Isabelle
  imports Complex_Main
begin

section \<open>Python values\<close>

text \<open>
  A Python \<open>str\<close> is a sequence of Unicode code points, and \<open>len\<close> counts code points.
  A string is therefore a list of code points; \<open>py\<close> embeds an ASCII literal.
\<close>

type_synonym pystr = "nat list"

definition py :: "string \<Rightarrow> pystr" where
  "py s = map of_char s"

text \<open>
  \<open>str.isspace\<close>, which is also what \<open>str.strip()\<close> removes and what \<open>\s\<close> matches in
  a \<open>str\<close> pattern: tab to carriage return, the four separators \<open>0x1c\<close> to \<open>0x1f\<close>,
  space, NEL, no-break space and the Unicode space separators.
\<close>

definition py_isspace :: "nat \<Rightarrow> bool" where
  "py_isspace c \<longleftrightarrow>
     (9 \<le> c \<and> c \<le> 13) \<or> (28 \<le> c \<and> c \<le> 32) \<or> c = 133 \<or> c = 160 \<or> c = 5760 \<or>
     (8192 \<le> c \<and> c \<le> 8202) \<or> c = 8232 \<or> c = 8233 \<or> c = 8239 \<or> c = 8287 \<or> c = 12288"

definition strip :: "pystr \<Rightarrow> pystr" where
  "strip s = rev (dropWhile py_isspace (rev (dropWhile py_isspace s)))"

text \<open>
  \<open>str.lower()\<close> on the ASCII letters. The source compares lowered strings only with the
  literals \<open>gemini\<close>, \<open>.mp3\<close>, \<open>.wav\<close> and \<open>.flac\<close>; no code point outside ASCII lowers
  to a letter of these, so the comparison is decided by the ASCII letters alone.
\<close>

definition lower_char :: "nat \<Rightarrow> nat" where
  "lower_char c = (if 65 \<le> c \<and> c \<le> 90 then c + 32 else c)"

definition lower :: "pystr \<Rightarrow> pystr" where
  "lower s = map lower_char s"

text \<open>\<open>re.search\<close> of a pattern that is a literal: the literal occurs somewhere in the string.\<close>

fun starts_with :: "pystr \<Rightarrow> pystr \<Rightarrow> bool" where
  "starts_with [] s = True"
| "starts_with (p # ps) [] = False"
| "starts_with (p # ps) (c # cs) = (p = c \<and> starts_with ps cs)"

fun re_search :: "pystr \<Rightarrow> pystr \<Rightarrow> bool" where
  "re_search p [] = starts_with p []"
| "re_search p (c # cs) = (starts_with p (c # cs) \<or> re_search p cs)"

section \<open>utils.py\<close>

subsection \<open>sanitize_filename\<close>

text \<open>
  The character class of the first substitution: less-than, greater-than, colon, double
  quote, slash, backslash, vertical bar, question mark and asterisk, by code point.
\<close>

definition invalid_char :: "nat \<Rightarrow> bool" where
  "invalid_char c \<longleftrightarrow> c \<in> set [60, 62, 58, 34, 47, 92, 124, 63, 42]"

text \<open>\<open>re.sub(r'\s+', ' ', s)\<close>: every maximal run of whitespace becomes one space.\<close>

function collapse_whitespace :: "pystr \<Rightarrow> pystr" where
  "collapse_whitespace [] = []"
| "collapse_whitespace (c # cs) =
     (if py_isspace c then 32 # collapse_whitespace (dropWhile py_isspace cs)
      else c # collapse_whitespace cs)"
  by pat_completeness auto
termination
  by (relation "measure length") (auto simp: less_Suc_eq_le length_dropWhile_le)

definition sanitize_filename :: "pystr \<Rightarrow> pystr" where
  "sanitize_filename filename =
     (let sanitized = map (\<lambda>c. if invalid_char c then 95 else c) filename;
          sanitized = take 100 (strip (collapse_whitespace sanitized))
      in sanitized)"

subsection \<open>validate_youtube_url\<close>

definition youtube_patterns :: "pystr list" where
  "youtube_patterns =
     [py ''youtube.com/watch?v='', py ''youtu.be/'', py ''youtube.com/embed/'',
      py ''youtube.com/v/'']"

definition validate_youtube_url :: "pystr \<Rightarrow> bool" where
  "validate_youtube_url url = list_ex (\<lambda>pattern. re_search pattern url) youtube_patterns"

section \<open>Files, exceptions and the outside world\<close>

text \<open>
  A file is named by where it lies: directly in the transient directory \<open>temp_files\<close>
  (by its file name), or anywhere else (by its full path, components separated by a slash).
  \<open>str\<close> of a path is the path itself.
\<close>

datatype path = Temp pystr | Other pystr

fun path_name :: "path \<Rightarrow> pystr" where
  "path_name (Temp n) = n"
| "path_name (Other p) = rev (takeWhile (\<lambda>c. c \<noteq> 47) (rev p))"

text \<open>
  \<open>PurePath.suffix\<close> and \<open>PurePath.stem\<close>: the name is cut at its last dot, unless that
  dot is the first or the last character of the name (46 is the dot).
\<close>

definition rfind_dot :: "pystr \<Rightarrow> nat option" where
  "rfind_dot name =
     (if 46 \<in> set name
      then Some (length name - 1 - length (takeWhile (\<lambda>c. c \<noteq> 46) (rev name)))
      else None)"

definition suffix :: "path \<Rightarrow> pystr" where
  "suffix p =
     (let name = path_name p
      in case rfind_dot name of
           None \<Rightarrow> []
         | Some i \<Rightarrow> if 0 < i \<and> i < length name - 1 then drop i name else [])"

definition stem :: "path \<Rightarrow> pystr" where
  "stem p =
     (let name = path_name p
      in case rfind_dot name of
           None \<Rightarrow> name
         | Some i \<Rightarrow> if 0 < i \<and> i < length name - 1 then take i name else name)"

text \<open>
  \<open>Exception\<close> stands for every exception that \<open>except Exception\<close> catches
  (\<open>ffmpeg.Error\<close> is one); \<open>KeyboardInterrupt\<close> for those it does not.
\<close>

datatype exn = Exception | KeyboardInterrupt

text \<open>Every call that leaves the process, in the order made.\<close>

text \<open>
  The two encodings the source asks the transcoder for: 16-bit PCM WAV, mono, at a given
  sample rate; and MP3 at 128k, mono, 22050 Hz.
\<close>

datatype encoding = Wav nat | Mp3

datatype call =
    FfmpegRun path pystr encoding
  | UploadFile path
  | GenerateFromAudio pystr nat
  | GenerateContent pystr
  | DeleteFile nat

text \<open>
  The state a run works on. \<open>temp_dir\<close> holds the entries of \<open>temp_files\<close> with their
  sizes in bytes, in the order \<open>glob\<close> lists them, and is \<open>None\<close> when the directory does
  not exist; \<open>other_files\<close> holds the files elsewhere; \<open>output_files\<close> the names written to the
  output directory.
\<close>

record world =
  temp_dir :: "(pystr \<times> nat) list option"
  other_files :: "(pystr \<times> nat) list"
  calls :: "call list"
  output_files :: "pystr list"

fun stat_size :: "world \<Rightarrow> path \<Rightarrow> nat option" where
  "stat_size w (Temp n) = (case temp_dir w of None \<Rightarrow> None | Some d \<Rightarrow> map_of d n)"
| "stat_size w (Other p) = map_of (other_files w) p"

definition exists :: "world \<Rightarrow> path \<Rightarrow> bool" where
  "exists w p = (stat_size w p \<noteq> None)"

text \<open>\<open>st_size / 1024 / 1024\<close>, the size in MB.\<close>

definition size_mb :: "nat \<Rightarrow> real" where
  "size_mb n = real n / 1024 / 1024"

text \<open>A tool creating or overwriting the entry \<open>n\<close> of the transient directory.\<close>

definition write_temp :: "pystr \<Rightarrow> nat \<Rightarrow> world \<Rightarrow> world" where
  "write_temp n sz w =
     w\<lparr>temp_dir := Some ((n, sz) #
          filter (\<lambda>e. fst e \<noteq> n) (case temp_dir w of None \<Rightarrow> [] | Some d \<Rightarrow> d))\<rparr>"

definition log_call :: "call \<Rightarrow> world \<Rightarrow> world" where
  "log_call c w = w\<lparr>calls := calls w @ [c]\<rparr>"

text \<open>
  What a run of an external tool that writes one file did: the size of the file it left at
  its target, if it left one, and the exception it raised, if it raised.
\<close>

record tool_result =
  written :: "nat option"
  raised :: "exn option"

text \<open>The video object of the download library, as far as the source reads it.\<close>

record video =
  yt_title :: pystr
  yt_length :: nat
  yt_author :: pystr
  yt_views :: nat
  yt_description :: pystr
  yt_audio_stream :: "pystr option"

text \<open>
  A response of the backend: reading its \<open>text\<close> gives the text or raises.
\<close>

type_synonym response = "exn + pystr"

text \<open>
  Everything outside the program: the download library, the transcoder, the generative
  backend, the file system's refusals, the clock, and the wording of the prompts (long
  fixed texts that no property below reads).
\<close>

record env =
  youtube :: "pystr \<Rightarrow> exn + video"
  stream_download :: "pystr \<Rightarrow> pystr \<Rightarrow> tool_result"
  ffmpeg_run :: "path \<Rightarrow> pystr \<Rightarrow> encoding \<Rightarrow> tool_result"
  upload_file :: "path \<Rightarrow> exn + nat"
  generate_from_audio :: "pystr \<Rightarrow> nat \<Rightarrow> exn + response"
  generate_content :: "pystr \<Rightarrow> exn + response"
  delete_file :: "nat \<Rightarrow> exn option"
  unlink_raises :: "pystr \<Rightarrow> bool"
  now :: pystr
  transcription_prompt :: "pystr option \<Rightarrow> pystr option \<Rightarrow> pystr"
  system_prompt :: "pystr \<Rightarrow> pystr option \<Rightarrow> pystr"
  analysis_prompt :: "pystr option \<Rightarrow> pystr"

text \<open>
  \<open>try: ... except Exception: return v\<close> around a computation: an \<open>Exception\<close> becomes
  the value \<open>v\<close>, anything else passes.
\<close>

definition except_Exception :: "'a \<Rightarrow> (exn + 'a) \<times> world \<Rightarrow> (exn + 'a) \<times> world" where
  "except_Exception v r = (case r of (Inl Exception, w) \<Rightarrow> (Inr v, w) | _ \<Rightarrow> r)"

text \<open>Running a file-writing tool towards the entry \<open>n\<close> of the transient directory.\<close>

definition run_tool :: "tool_result \<Rightarrow> pystr \<Rightarrow> world \<Rightarrow> exn option \<times> world" where
  "run_tool t n w =
     (raised t, (case written t of None \<Rightarrow> w | Some sz \<Rightarrow> write_temp n sz w))"

text \<open>\<open>x or d\<close> on an optional string: \<open>None\<close> and the empty string are false.\<close>

definition py_or :: "pystr option \<Rightarrow> pystr \<Rightarrow> pystr" where
  "py_or x d = (case x of None \<Rightarrow> d | Some s \<Rightarrow> if s = [] then d else s)"

section \<open>utils.py: cleanup_temp_files\<close>

text \<open>
  The loop over \<open>temp_dir.glob('*')\<close>: an entry is unlinked, or, when \<open>unlink\<close> raises,
  reported and left.
\<close>

primrec unlink_each :: "env \<Rightarrow> (pystr \<times> nat) list \<Rightarrow> (pystr \<times> nat) list" where
  "unlink_each e [] = []"
| "unlink_each e (file # files) =
     (if unlink_raises e (fst file) then file # unlink_each e files
      else unlink_each e files)"

definition cleanup_temp_files :: "env \<Rightarrow> world \<Rightarrow> world" where
  "cleanup_temp_files e w =
     (case temp_dir w of
        None \<Rightarrow> w
      | Some d \<Rightarrow> w\<lparr>temp_dir := Some (unlink_each e d)\<rparr>)"

section \<open>downloader.py\<close>

text \<open>The dictionary of \<open>get_video_info\<close>, without the formatted duration.\<close>

record video_info =
  title :: pystr
  duration :: nat
  author :: pystr
  views :: nat
  description :: pystr

definition get_video_info :: "env \<Rightarrow> pystr \<Rightarrow> world \<Rightarrow> (exn + video_info option) \<times> world" where
  "get_video_info e url w =
     except_Exception None
       (case youtube e url of
          Inl x \<Rightarrow> (Inl x, w)
        | Inr yt \<Rightarrow>
            (Inr (Some \<lparr>title = yt_title yt, duration = yt_length yt, author = yt_author yt,
                        views = yt_views yt,
                        description =
                          (if length (yt_description yt) > 200
                           then take 200 (yt_description yt) @ py ''...''
                           else yt_description yt)\<rparr>), w))"

definition download_audio :: "env \<Rightarrow> pystr \<Rightarrow> world \<Rightarrow> (exn + path option) \<times> world" where
  "download_audio e url w =
     except_Exception None
       (case youtube e url of
          Inl x \<Rightarrow> (Inl x, w)
        | Inr yt \<Rightarrow>
            (case yt_audio_stream yt of
               None \<Rightarrow> (Inr None, w)
             | Some subtype \<Rightarrow>
                 (let filename = sanitize_filename (yt_title yt);
                      name = filename @ py ''.'' @ subtype;
                      (r, w') = run_tool (stream_download e url name) name w
                  in (case r of
                        Some x \<Rightarrow> (Inl x, w')
                      | None \<Rightarrow> (Inr (Some (Temp name)), w')))))"

section \<open>converter.py\<close>

definition convert_to_wav :: "env \<Rightarrow> path \<Rightarrow> nat \<Rightarrow> world \<Rightarrow> (exn + path option) \<times> world" where
  "convert_to_wav e input_path target_sample_rate w =
     except_Exception None
       (if \<not> exists w input_path then (Inr None, w)
        else
          let output_filename = stem input_path @ py ''_converted.wav'';
              output_path = Temp output_filename;
              (r, w') = run_tool (ffmpeg_run e input_path output_filename (Wav target_sample_rate))
                          output_filename
                          (log_call (FfmpegRun input_path output_filename (Wav target_sample_rate)) w)
          in case r of
               Some x \<Rightarrow> (Inl x, w')
             | None \<Rightarrow>
                 if exists w' output_path then (Inr (Some output_path), w')
                 else (Inr None, w'))"

definition optimize_for_whisper_internal ::
    "env \<Rightarrow> path \<Rightarrow> world \<Rightarrow> (exn + path option) \<times> world" where
  "optimize_for_whisper_internal e input_path w = convert_to_wav e input_path 16000 w"

text \<open>
  After a conversion that left its output, the source prints the reduction in percent,
  dividing by the original size: on an original of size zero that raises
  \<open>ZeroDivisionError\<close>, inside the \<open>try\<close>.
\<close>

definition optimize_for_gemini_internal ::
    "env \<Rightarrow> path \<Rightarrow> real \<Rightarrow> world \<Rightarrow> (exn + path option) \<times> world" where
  "optimize_for_gemini_internal e input_path file_size_mb w =
     (if lower (suffix input_path) \<in> set [py ''.mp3'', py ''.wav'', py ''.flac'']
         \<and> file_size_mb \<le> 18
      then (Inr (Some input_path), w)
      else
        let output_filename = stem input_path @ py ''_gemini_optimized.mp3'';
            output_path = Temp output_filename
        in except_Exception (Some input_path)
             (let (r, w') = run_tool (ffmpeg_run e input_path output_filename Mp3)
                              output_filename
                              (log_call (FfmpegRun input_path output_filename Mp3) w)
              in case r of
                   Some x \<Rightarrow> (Inl x, w')
                 | None \<Rightarrow>
                     if exists w' output_path
                     then (if file_size_mb = 0 then (Inl Exception, w')
                           else (Inr (Some output_path), w'))
                     else (Inr (Some input_path), w')))"

definition optimize_for_whisper ::
    "env \<Rightarrow> path \<Rightarrow> pystr \<Rightarrow> world \<Rightarrow> (exn + path option) \<times> world" where
  "optimize_for_whisper e input_path target_ai w =
     except_Exception (Some input_path)
       (case stat_size w input_path of
          None \<Rightarrow> (Inr None, w)
        | Some st_size \<Rightarrow>
            let file_size_mb = size_mb st_size
            in if lower target_ai = py ''gemini''
               then optimize_for_gemini_internal e input_path file_size_mb w
               else optimize_for_whisper_internal e input_path w)"

definition optimize_for_gemini :: "env \<Rightarrow> path \<Rightarrow> world \<Rightarrow> (exn + path option) \<times> world" where
  "optimize_for_gemini e input_path w = optimize_for_whisper e input_path (py ''gemini'') w"

section \<open>transcriber.py\<close>

record transcript_data =
  t_text :: pystr
  t_file_path :: path
  t_file_size_mb :: real
  t_language :: pystr
  t_source_language :: "pystr option"
  t_model_used :: pystr

text \<open>
  The response's text is read only after the backend's copy of the audio is deleted, so the
  three backend calls are all made before a failure to read the text shows.
\<close>

definition transcribe_audio ::
    "env \<Rightarrow> path \<Rightarrow> pystr option \<Rightarrow> pystr option \<Rightarrow> world
       \<Rightarrow> (exn + transcript_data option) \<times> world" where
  "transcribe_audio e audio_path language source_language w =
     except_Exception None
       (case stat_size w audio_path of
          None \<Rightarrow> (Inr None, w)
        | Some st_size \<Rightarrow>
            (let file_size_mb = size_mb st_size
             in if file_size_mb > 20 then (Inr None, w)
                else
                  (let w1 = log_call (UploadFile audio_path) w
                   in (case upload_file e audio_path of
                         Inl x \<Rightarrow> (Inl x, w1)
                       | Inr audio_file_obj \<Rightarrow>
                           (let prompt = transcription_prompt e language source_language;
                                w2 = log_call (GenerateFromAudio prompt audio_file_obj) w1
                            in (case generate_from_audio e prompt audio_file_obj of
                                  Inl x \<Rightarrow> (Inl x, w2)
                                | Inr response \<Rightarrow>
                                    (let w3 = log_call (DeleteFile audio_file_obj) w2
                                     in (case delete_file e audio_file_obj of
                                           Some x \<Rightarrow> (Inl x, w3)
                                         | None \<Rightarrow>
                                             (case response of
                                                Inl x \<Rightarrow> (Inl x, w3)
                                              | Inr transcript_text \<Rightarrow>
                                                  (Inr (Some
                                                     \<lparr>t_text = transcript_text,
                                                      t_file_path = audio_path,
                                                      t_file_size_mb = file_size_mb,
                                                      t_language = py_or language (py ''auto-detectado''),
                                                      t_source_language = source_language,
                                                      t_model_used = py ''gemini-1.5-flash''\<rparr>),
                                                   w3))))))))))"

section \<open>summarizer.py\<close>

record summary_data =
  s_summary :: pystr
  s_original_length :: nat
  s_summary_length :: nat
  s_compression_ratio :: real
  s_model_used :: pystr
  s_summary_type :: pystr
  s_target_language :: pystr

record analysis_data =
  a_analysis :: pystr
  a_model_used :: pystr
  a_target_language :: pystr

definition model_name :: pystr where
  "model_name = py ''gemini-1.5-flash''"

definition truncation_marker :: pystr where
  "truncation_marker = py ''\<newline>\<newline>[...texto truncado...]''"

text \<open>
  The division \<open>len(summary) / len(text)\<close> raises \<open>ZeroDivisionError\<close> on an empty text,
  inside the \<open>try\<close>.
\<close>

definition create_summary ::
    "env \<Rightarrow> pystr \<Rightarrow> pystr \<Rightarrow> pystr option \<Rightarrow> world \<Rightarrow> (exn + summary_data option) \<times> world" where
  "create_summary e txt summary_type target_language w =
     except_Exception None
       (if length (strip txt) < 50 then (Inr None, w)
        else
          (let system_prompt = system_prompt e summary_type target_language;
               max_chars = 30000;
               txt = (if length txt > max_chars then take max_chars txt @ truncation_marker
                      else txt);
               full_prompt = system_prompt @ py ''\<newline>\<newline>Texto para resumir:\<newline>\<newline>'' @ txt;
               w1 = log_call (GenerateContent full_prompt) w
           in (case generate_content e full_prompt of
                 Inl x \<Rightarrow> (Inl x, w1)
               | Inr response \<Rightarrow>
                   (case response of
                      Inl x \<Rightarrow> (Inl x, w1)
                    | Inr summary \<Rightarrow>
                        if length txt = 0 then (Inl Exception, w1)
                        else
                          (Inr (Some
                             \<lparr>s_summary = summary,
                              s_original_length = length txt,
                              s_summary_length = length summary,
                              s_compression_ratio = real (length summary) / real (length txt),
                              s_model_used = model_name,
                              s_summary_type = summary_type,
                              s_target_language = py_or target_language (py ''original'')\<rparr>),
                           w1)))))"

text \<open>The heading before the analysed text; 250 is the u with acute accent.\<close>

definition analysis_heading :: pystr where
  "analysis_heading =
     py ''\<newline>\<newline>Conte'' @ [250] @ py ''do para analisar:\<newline>\<newline>''"

definition analyze_content ::
    "env \<Rightarrow> pystr \<Rightarrow> pystr option \<Rightarrow> world \<Rightarrow> (exn + analysis_data option) \<times> world" where
  "analyze_content e txt target_language w =
     except_Exception None
       (let system_prompt = analysis_prompt e target_language;
            prompt = system_prompt @ analysis_heading @ take 5000 txt;
            w1 = log_call (GenerateContent prompt) w
        in (case generate_content e prompt of
              Inl x \<Rightarrow> (Inl x, w1)
            | Inr response \<Rightarrow>
                (case response of
                   Inl x \<Rightarrow> (Inl x, w1)
                 | Inr analysis \<Rightarrow>
                     (Inr (Some
                        \<lparr>a_analysis = analysis,
                         a_model_used = model_name,
                         a_target_language = py_or target_language (py ''original'')\<rparr>),
                      w1))))"

section \<open>main.py\<close>

record final_result =
  r_video_info :: video_info
  r_transcript :: transcript_data
  r_summary :: summary_data
  r_analysis :: "analysis_data option"
  r_processing_time :: pystr
  r_ai_provider :: pystr
  r_source_language :: "pystr option"
  r_target_language :: "pystr option"
  r_original_audio :: path
  r_converted_audio :: path

text \<open>
  The three artifacts are named from the sanitized title, the timestamp and the language
  suffix. Each writer catches its own errors, and so does the whole function, so nothing is
  raised to the caller; the model records the three names.
\<close>

definition save_results :: "env \<Rightarrow> final_result \<Rightarrow> pystr \<Rightarrow> world \<Rightarrow> world" where
  "save_results e result_data video_title w =
     (let safe_title = sanitize_filename video_title;
          timestamp = now e;
          language_suffix =
            (case r_target_language result_data of
               None \<Rightarrow> []
             | Some target_language \<Rightarrow>
                 if target_language = [] then [] else py ''_'' @ target_language);
          base_filename = safe_title @ py ''_'' @ timestamp @ language_suffix
      in w\<lparr>output_files := output_files w @
              [base_filename @ py ''_transcricao_gemini.txt'',
               base_filename @ py ''_resumo_gemini.md'',
               base_filename @ py ''_relatorio_completo_gemini.md'']\<rparr>)"

text \<open>
  One stage of the pipeline followed by the rest: \<open>x = stage(...)\<close>, then
  \<open>if not x: return None\<close>; an exception of the stage leaves the \<open>try\<close> body.
\<close>

definition and_then ::
    "(world \<Rightarrow> (exn + 'a option) \<times> world) \<Rightarrow> ('a \<Rightarrow> world \<Rightarrow> (exn + 'b option) \<times> world)
       \<Rightarrow> world \<Rightarrow> (exn + 'b option) \<times> world" where
  "and_then stage rest w =
     (case stage w of
        (Inl x, w') \<Rightarrow> (Inl x, w')
      | (Inr None, w') \<Rightarrow> (Inr None, w')
      | (Inr (Some v), w') \<Rightarrow> rest v w')"

text \<open>The body of the \<open>try\<close> statement of \<open>analyze_video\<close>.\<close>

definition analyze_video_try ::
    "env \<Rightarrow> pystr \<Rightarrow> pystr \<Rightarrow> pystr option \<Rightarrow> pystr option \<Rightarrow> world
       \<Rightarrow> (exn + final_result option) \<times> world" where
  "analyze_video_try e youtube_url summary_type target_language source_language =
     and_then (get_video_info e youtube_url) (\<lambda>video_info.
     and_then (download_audio e youtube_url) (\<lambda>audio_path.
     and_then (optimize_for_gemini e audio_path) (\<lambda>converted_path.
     and_then (transcribe_audio e converted_path target_language source_language)
       (\<lambda>transcript_data.
     and_then (create_summary e (t_text transcript_data) summary_type target_language)
       (\<lambda>summary_data w.
          (case analyze_content e (t_text transcript_data) target_language w of
             (Inl x, w') \<Rightarrow> (Inl x, w')
           | (Inr analysis_data, w') \<Rightarrow>
               (let final_result =
                      \<lparr>r_video_info = video_info,
                       r_transcript = transcript_data,
                       r_summary = summary_data,
                       r_analysis = analysis_data,
                       r_processing_time = now e,
                       r_ai_provider = py ''Google Gemini'',
                       r_source_language = source_language,
                       r_target_language = target_language,
                       r_original_audio = audio_path,
                       r_converted_audio = converted_path\<rparr>
                in (Inr (Some final_result),
                    save_results e final_result (title video_info) w'))))))))"

text \<open>
  \<open>analyze_video\<close>: the URL is validated before the \<open>try\<close> statement; \<open>except Exception\<close>
  turns an exception of the body into \<open>None\<close>; the \<open>finally\<close> clause runs
  \<open>cleanup_temp_files\<close> however the body ended.
\<close>

definition analyze_video ::
    "env \<Rightarrow> pystr \<Rightarrow> pystr \<Rightarrow> pystr option \<Rightarrow> pystr option \<Rightarrow> world
       \<Rightarrow> (exn + final_result option) \<times> world" where
  "analyze_video e youtube_url summary_type target_language source_language w =
     (if \<not> validate_youtube_url youtube_url then (Inr None, w)
      else
        (let (r, w') = except_Exception None
                         (analyze_video_try e youtube_url summary_type target_language
                            source_language w)
         in (r, cleanup_temp_files e w')))"

section \<open>Notions the properties are stated with\<close>


section \<open>Sample inputs\<close>

text \<open>
  A world with an empty transient directory, and one whose transient directory holds a
  single file.
\<close>

definition world0 :: world where
  "world0 = \<lparr>temp_dir = Some [], other_files = [], calls = [], output_files = []\<rparr>"

definition world_with :: "pystr \<Rightarrow> nat \<Rightarrow> world" where
  "world_with n sz = \<lparr>temp_dir = Some [(n, sz)], other_files = [], calls = [], output_files = []\<rparr>"

text \<open>
  An environment in which every external call succeeds: the video \<open>Talk\<close> has an audio
  stream of subtype \<open>mp4\<close>, one million bytes long; the transcoder leaves half a million
  bytes; the transcript has thirty characters. The refusals of \<open>unlink\<close> are a parameter.
\<close>

definition sample_video :: video where
  "sample_video =
     \<lparr>yt_title = py ''Talk'', yt_length = 60, yt_author = py ''Ann'', yt_views = 5,
      yt_description = py ''A talk'', yt_audio_stream = Some (py ''mp4'')\<rparr>"

definition sample_env :: "(pystr \<Rightarrow> bool) \<Rightarrow> env" where
  "sample_env u =
     \<lparr>youtube = (\<lambda>url. Inr sample_video),
      stream_download = (\<lambda>url name. \<lparr>written = Some 1000000, raised = None\<rparr>),
      ffmpeg_run = (\<lambda>input_path output_filename enc. \<lparr>written = Some 500000, raised = None\<rparr>),
      upload_file = (\<lambda>p. Inr 1),
      generate_from_audio = (\<lambda>prompt h. Inr (Inr (py ''This transcript has 30 chars!!''))),
      generate_content = (\<lambda>prompt. Inr (Inr (py ''Summary''))),
      delete_file = (\<lambda>h. None),
      unlink_raises = u,
      now = py ''20240101_120000'',
      transcription_prompt = (\<lambda>l s. py ''Transcribe''),
      system_prompt = (\<lambda>t l. py ''Summarize''),
      analysis_prompt = (\<lambda>l. py ''Analyze'')\<rparr>"

text \<open>
  The sample environment in which no \<open>unlink\<close> raises, and the one in which the
  downloaded file cannot be unlinked.
\<close>

definition quiet_env :: env where
  "quiet_env = sample_env (\<lambda>n. False)"

definition locking_env :: env where
  "locking_env = sample_env (\<lambda>n. n = py ''Talk.mp4'')"

definition url0 :: pystr where
  "url0 = py ''https://youtu.be/abc''"

text \<open>The world the sample run is in when its transcript has been made.\<close>

definition world_transcribed :: world where
  "world_transcribed =
     \<lparr>temp_dir = Some [(py ''Talk_gemini_optimized.mp3'', 500000), (py ''Talk.mp4'', 1000000)],
      other_files = [],
      calls = [FfmpegRun (Temp (py ''Talk.mp4'')) (py ''Talk_gemini_optimized.mp3'') Mp3,
               UploadFile (Temp (py ''Talk_gemini_optimized.mp3'')),
               GenerateFromAudio (py ''Transcribe'') 1,
               DeleteFile 1],
      output_files = []\<rparr>"


definition silent_env :: env where
  "silent_env = (sample_env (\<lambda>n. False))\<lparr>generate_content := (\<lambda>prompt. Inr (Inr []))\<rparr>"

text \<open>The values and worlds the sample run passes through.\<close>

definition sample_info :: video_info where
  "sample_info =
     \<lparr>title = py ''Talk'', duration = 60, author = py ''Ann'', views = 5,
      description = py ''A talk''\<rparr>"

definition world_optimized :: world where
  "world_optimized =
     \<lparr>temp_dir = Some [(py ''Talk_gemini_optimized.mp3'', 500000), (py ''Talk.mp4'', 1000000)],
      other_files = [],
      calls = [FfmpegRun (Temp (py ''Talk.mp4'')) (py ''Talk_gemini_optimized.mp3'') Mp3],
      output_files = []\<rparr>"

definition sample_transcript :: transcript_data where
  "sample_transcript =
     \<lparr>t_text = py ''This transcript has 30 chars!!'',
      t_file_path = Temp (py ''Talk_gemini_optimized.mp3''),
      t_file_size_mb = size_mb 500000,
      t_language = py ''auto-detectado'',
      t_source_language = None,
      t_model_used = py ''gemini-1.5-flash''\<rparr>"

section \<open>Auxiliary facts\<close>

lemma except_Exception_simps:
  "except_Exception v (Inr x, w) = (Inr x, w)"
  "except_Exception v (Inl Exception, w) = (Inr v, w)"
  "except_Exception v (Inl KeyboardInterrupt, w) = (Inl KeyboardInterrupt, w)"
  by (simp_all add: except_Exception_def)

lemma lower_gemini: "lower (py ''gemini'') = py ''gemini''"
  by code_simp




lemma length_strip_le: "length (strip s) \<le> length s"
proof -
  have "length (strip s) \<le> length (dropWhile py_isspace s)"
    unfolding strip_def by (metis length_dropWhile_le length_rev)
  also have "\<dots> \<le> length s" by (rule length_dropWhile_le)
  finally show ?thesis .
qed

lemma not_space_97: "\<not> py_isspace 97"
  by (simp add: py_isspace_def)

lemma strip_replicate_97: "strip (replicate n 97) = replicate n 97"
  by (simp add: strip_def dropWhile_replicate not_space_97)

lemma collapse_no_space:
  "\<forall>c\<in>set xs. \<not> py_isspace c \<Longrightarrow> collapse_whitespace (xs @ ys) = xs @ collapse_whitespace ys"
  by (induction xs) auto

lemma dropWhile_none: "\<forall>c\<in>set s. \<not> P c \<Longrightarrow> dropWhile P s = s"
  by (cases s) simp_all

lemma strip_clean: "\<forall>c\<in>set s. \<not> py_isspace c \<Longrightarrow> strip s = s"
  by (simp add: strip_def dropWhile_none)

lemma sanitize_filename_clean:
  assumes "\<forall>c\<in>set s. \<not> invalid_char c \<and> \<not> py_isspace c" and "length s \<le> 100"
  shows "sanitize_filename s = s"
proof -
  have m: "map (\<lambda>c. if invalid_char c then 95 else c) s = s"
    using assms(1) by (induction s) simp_all
  have c: "collapse_whitespace s = s"
    using assms(1) collapse_no_space [of s "[]"] by simp
  have t: "strip s = s"
    using assms(1) by (simp add: strip_clean)
  show ?thesis
    unfolding sanitize_filename_def Let_def m c t using assms(2) by simp
qed

lemma sanitize_Talk: "sanitize_filename (py ''Talk'') = py ''Talk''"
  by (rule sanitize_filename_clean) (simp_all add: py_def invalid_char_def py_isspace_def)

lemma valid_url0: "validate_youtube_url url0"
  unfolding url0_def by code_simp

lemma Talk_name: "py ''Talk'' @ py ''.'' @ py ''mp4'' = py ''Talk.mp4''"
  by (simp add: py_def)

lemma Talk_suffix:
  "lower (suffix (Temp (py ''Talk.mp4''))) \<notin> set [py ''.mp3'', py ''.wav'', py ''.flac'']"
  by code_simp

lemma Talk_stem: "stem (Temp (py ''Talk.mp4'')) @ py ''_gemini_optimized.mp3'' = py ''Talk_gemini_optimized.mp3''"
  by code_simp

lemma Talk_names_differ: "py ''Talk.mp4'' \<noteq> py ''Talk_gemini_optimized.mp3''"
  by code_simp

lemma short_transcript: "length (strip (py ''This transcript has 30 chars!!'')) < 50"
proof -
  have "length (py ''This transcript has 30 chars!!'') = 30" by (simp add: py_def)
  then show ?thesis using length_strip_le [of "py ''This transcript has 30 chars!!''"] by simp
qed

lemma sample_get_video_info:
  "get_video_info (sample_env u) url0 w = (Inr (Some sample_info), w)"
  by (simp add: get_video_info_def sample_env_def sample_video_def sample_info_def
      except_Exception_simps py_def)

lemma sample_download_audio:
  "download_audio (sample_env u) url0 world0 =
     (Inr (Some (Temp (py ''Talk.mp4''))), world_with (py ''Talk.mp4'') 1000000)"
  by (simp add: download_audio_def sample_env_def sample_video_def sanitize_Talk Talk_name
      run_tool_def write_temp_def world0_def world_with_def except_Exception_simps Let_def)

lemma sample_optimize_for_gemini:
  "optimize_for_gemini (sample_env u) (Temp (py ''Talk.mp4'')) (world_with (py ''Talk.mp4'') 1000000) =
     (Inr (Some (Temp (py ''Talk_gemini_optimized.mp3''))), world_optimized)"
  using Talk_suffix Talk_names_differ
  by (simp add: optimize_for_gemini_def optimize_for_whisper_def optimize_for_gemini_internal_def
      lower_gemini Talk_stem sample_env_def run_tool_def write_temp_def log_call_def
      world_with_def world_optimized_def exists_def size_mb_def except_Exception_simps
      Let_def del: set_simps)

lemma sample_transcribe_audio:
  "transcribe_audio (sample_env u) (Temp (py ''Talk_gemini_optimized.mp3'')) None None world_optimized =
     (Inr (Some sample_transcript), world_transcribed)"
  by (simp add: transcribe_audio_def sample_env_def world_optimized_def world_transcribed_def
      sample_transcript_def log_call_def size_mb_def py_or_def except_Exception_simps)

lemma unlink_each_filter: "unlink_each e d = filter (\<lambda>file. unlink_raises e (fst file)) d"
  by (induction d) simp_all

lemma snd_except_Exception: "snd (except_Exception v r) = snd r"
  by (cases r) (auto simp: except_Exception_def split: sum.splits exn.splits)

lemma calls_cleanup: "calls (cleanup_temp_files e w) = calls w"
  by (simp add: cleanup_temp_files_def split: option.splits)

lemma run_ends_at_summary:
  assumes "validate_youtube_url youtube_url"
    and "get_video_info e youtube_url w = (Inr (Some video_info), w1)"
    and "download_audio e youtube_url w1 = (Inr (Some audio_path), w2)"
    and "optimize_for_gemini e audio_path w2 = (Inr (Some converted_path), w3)"
    and "transcribe_audio e converted_path target_language source_language w3 =
           (Inr (Some transcript_data), w4)"
    and "length (strip (t_text transcript_data)) < 50"
  shows "analyze_video e youtube_url summary_type target_language source_language w =
           (Inr None, cleanup_temp_files e w4)"
  using assms
  by (simp add: analyze_video_def analyze_video_try_def and_then_def create_summary_def
      except_Exception_simps)

lemma sample_run:
  "analyze_video (sample_env u) url0 (py ''structured'') None None world0 =
     (Inr None, cleanup_temp_files (sample_env u) world_transcribed)"
proof -
  have "length (strip (t_text sample_transcript)) < 50"
    by (simp add: sample_transcript_def short_transcript)
  then show ?thesis
    using run_ends_at_summary [OF valid_url0 sample_get_video_info sample_download_audio
        sample_optimize_for_gemini sample_transcribe_audio]
    by simp
qed

lemma sample_cleanup:
  "cleanup_temp_files (sample_env (\<lambda>n. n = py ''Talk.mp4'')) world_transcribed =
     world_transcribed\<lparr>temp_dir := Some [(py ''Talk.mp4'', 1000000)]\<rparr>"
  using Talk_names_differ
  by (simp add: cleanup_temp_files_def world_transcribed_def sample_env_def)

lemma sample_summary:
  "fst (create_summary (sample_env u) (replicate 70 97) (py ''structured'') None world0) =
     Inr (Some \<lparr>s_summary = py ''Summary'', s_original_length = 70, s_summary_length = 7,
                s_compression_ratio = 1 / 10, s_model_used = model_name,
                s_summary_type = py ''structured'', s_target_language = py ''original''\<rparr>)"
  by (simp add: create_summary_def strip_replicate_97 sample_env_def except_Exception_simps
      Let_def py_or_def py_def)

text \<open>What \<open>sanitize_filename\<close> does guarantee, for every input.\<close>

lemma set_collapse_whitespace: "set (collapse_whitespace xs) \<subseteq> insert 32 (set xs)"
proof (induction xs rule: collapse_whitespace.induct)
  case 1
  then show ?case by simp
next
  case (2 c cs)
  show ?case
  proof (cases "py_isspace c")
    case True
    with 2 have "set (collapse_whitespace (dropWhile py_isspace cs)) \<subseteq> insert 32 (set (dropWhile py_isspace cs))"
      by simp
    moreover have "set (dropWhile py_isspace cs) \<subseteq> set cs"
      by (auto dest: set_dropWhileD)
    ultimately show ?thesis using True by auto
  next
    case False
    with 2 show ?thesis by auto
  qed
qed

lemma set_strip: "set (strip s) \<subseteq> set s"
  unfolding strip_def by (auto dest!: set_dropWhileD)

lemma hd_strip: "strip s \<noteq> [] \<Longrightarrow> \<not> py_isspace (hd (strip s))"
proof -
  assume n: "strip s \<noteq> []"
  define t where "t = dropWhile py_isspace s"
  have s: "strip s = rev (dropWhile py_isspace (rev t))"
    by (simp add: strip_def t_def)
  obtain k where k: "strip s = take k t"
    unfolding s by (metis dropWhile_eq_drop rev_drop rev_rev_ident)
  with n have "t \<noteq> []" "0 < k" by (auto intro: Nat.gr0I)
  then have "hd (strip s) = hd t" using k by (cases t; cases k) auto
  moreover have "\<not> py_isspace (hd t)"
    using \<open>t \<noteq> []\<close> unfolding t_def by (rule hd_dropWhile)
  ultimately show ?thesis by simp
qed

lemma sanitize_filename_sound:
  "length (sanitize_filename s) \<le> 100
   \<and> (\<forall>c\<in>set (sanitize_filename s). \<not> invalid_char c)
   \<and> (sanitize_filename s \<noteq> [] \<longrightarrow> \<not> py_isspace (hd (sanitize_filename s)))"
proof (intro conjI)
  let ?m = "map (\<lambda>c. if invalid_char c then 95 else c) s"
  have r: "sanitize_filename s = take 100 (strip (collapse_whitespace ?m))"
    by (simp add: sanitize_filename_def)
  show "length (sanitize_filename s) \<le> 100" by (simp add: r)
  have "set (sanitize_filename s) \<subseteq> insert 32 (set ?m)"
    unfolding r using set_take_subset set_strip set_collapse_whitespace by fast
  moreover have "\<not> invalid_char 32" "\<not> invalid_char 95" by (simp_all add: invalid_char_def)
  ultimately show "\<forall>c\<in>set (sanitize_filename s). \<not> invalid_char c" by auto
  show "sanitize_filename s \<noteq> [] \<longrightarrow> \<not> py_isspace (hd (sanitize_filename s))"
    unfolding r using hd_strip [of "collapse_whitespace ?m"] by (auto simp: hd_take)
qed

section \<open>URL validation\<close>


section \<open>Transcription: the size ceiling\<close>

text \<open>
  C3. When the audio file is larger than 20 MB, \<open>transcribe_audio\<close> returns \<open>None\<close> and
  leaves the world as it was: the log of calls is unchanged, so neither the upload nor a
  generation call was made.
\<close>

theorem transcribe_too_large:
  assumes "stat_size w audio_path = Some st_size" and "size_mb st_size > 20"
  shows "transcribe_audio e audio_path language source_language w = (Inr None, w)"
  using assms by (simp add: transcribe_audio_def except_Exception_simps)

theorem transcribe_too_large_witness:
  "stat_size (world_with (py ''big.mp3'') 26214400) (Temp (py ''big.mp3'')) = Some 26214400
   \<and> size_mb 26214400 = 25 \<and> size_mb 26214400 > 20
   \<and> transcribe_audio (sample_env (\<lambda>n. False)) (Temp (py ''big.mp3'')) None None
        (world_with (py ''big.mp3'') 26214400)
      = (Inr None, world_with (py ''big.mp3'') 26214400)"
proof -
  have s: "stat_size (world_with (py ''big.mp3'') 26214400) (Temp (py ''big.mp3'')) = Some 26214400"
    by (simp add: world_with_def)
  have m: "size_mb 26214400 = 25" by (simp add: size_mb_def)
  then have g: "size_mb 26214400 > 20" by simp
  show ?thesis
    using s m g transcribe_too_large [OF s g, of "sample_env (\<lambda>n. False)" None None] by simp
qed

section \<open>Normalization: missing input\<close>



section \<open>Normalization: the zero-cost path\<close>

text \<open>
  C7. When the file's suffix, lowered, is one of \<open>.mp3\<close>, \<open>.wav\<close>, \<open>.flac\<close> and its size is
  at most 18 MB (so in particular when it is below 18 MB), \<open>optimize_for_gemini\<close> returns
  the path it was given and leaves the world as it was: no transcoder run is logged, no file
  is written. Calling it again on the same path gives the same path and the same world.
\<close>

theorem optimize_compliant_unchanged:
  assumes "stat_size w input_path = Some st_size"
    and "lower (suffix input_path) \<in> set [py ''.mp3'', py ''.wav'', py ''.flac'']"
    and "size_mb st_size \<le> 18"
  shows "optimize_for_gemini e input_path w = (Inr (Some input_path), w)
         \<and> optimize_for_gemini e input_path (snd (optimize_for_gemini e input_path w))
             = (Inr (Some input_path), w)"
  using assms
  by (simp add: optimize_for_gemini_def optimize_for_whisper_def
      optimize_for_gemini_internal_def lower_gemini except_Exception_simps del: set_simps)

theorem optimize_compliant_unchanged_witness:
  "stat_size (world_with (py ''talk.MP3'') 1000000) (Temp (py ''talk.MP3'')) = Some 1000000
   \<and> lower (suffix (Temp (py ''talk.MP3''))) \<in> set [py ''.mp3'', py ''.wav'', py ''.flac'']
   \<and> size_mb 1000000 \<le> 18
   \<and> optimize_for_gemini (sample_env (\<lambda>n. False)) (Temp (py ''talk.MP3''))
        (world_with (py ''talk.MP3'') 1000000)
      = (Inr (Some (Temp (py ''talk.MP3''))), world_with (py ''talk.MP3'') 1000000)"
proof -
  have s: "stat_size (world_with (py ''talk.MP3'') 1000000) (Temp (py ''talk.MP3'')) = Some 1000000"
    by (simp add: world_with_def)
  have x: "lower (suffix (Temp (py ''talk.MP3''))) \<in> set [py ''.mp3'', py ''.wav'', py ''.flac'']"
    by code_simp
  have m: "size_mb 1000000 \<le> 18" by (simp add: size_mb_def)
  show ?thesis
    using s x m optimize_compliant_unchanged [OF s x m, of "sample_env (\<lambda>n. False)"] by simp
qed

section \<open>Normalization: transcoding failure\<close>



section \<open>Summarizer: truncation\<close>



section \<open>Summarizer: compression ratio\<close>

text \<open>
  C8, as the code has it. In every result of \<open>create_summary\<close> the compression ratio is
  the length of the summary divided by the length of the text after truncation, which is at
  least 50; the ratio is never negative, and it is positive exactly when the summary is not
  empty.
\<close>

theorem compression_ratio_exact:
  assumes "fst (create_summary e txt summary_type target_language w) = Inr (Some s)"
  shows "s_compression_ratio s = real (s_summary_length s) / real (s_original_length s)
         \<and> s_summary_length s = length (s_summary s)
         \<and> s_original_length s =
             length (if length txt > 30000 then take 30000 txt @ truncation_marker else txt)
         \<and> 50 \<le> s_original_length s
         \<and> 0 \<le> s_compression_ratio s
         \<and> (0 < s_compression_ratio s \<longleftrightarrow> s_summary s \<noteq> [])"
  using assms length_strip_le[of "txt"]
  by (auto simp: create_summary_def except_Exception_def Let_def
      split: sum.splits exn.splits if_splits)

theorem compression_ratio_exact_witness:
  "fst (create_summary (sample_env (\<lambda>n. False)) (replicate 70 97) (py ''structured'') None world0) =
     Inr (Some \<lparr>s_summary = py ''Summary'', s_original_length = 70, s_summary_length = 7,
                s_compression_ratio = 1 / 10, s_model_used = model_name,
                s_summary_type = py ''structured'', s_target_language = py ''original''\<rparr>)
   \<and> (1 / 10 :: real) = real 7 / real 70 \<and> (0::real) < 1 / 10"
  using compression_ratio_exact [OF sample_summary [of "\<lambda>n. False"]] sample_summary [of "\<lambda>n. False"]
  by simp

text \<open>
  The claim as stated fails when the backend answers with an empty text: a result is
  returned and its ratio is zero.
\<close>

theorem compression_ratio_positive_counterexample:
  "fst (create_summary silent_env (replicate 70 97) (py ''structured'') None world0) =
     Inr (Some \<lparr>s_summary = [], s_original_length = 70, s_summary_length = 0,
                s_compression_ratio = 0, s_model_used = model_name,
                s_summary_type = py ''structured'', s_target_language = py ''original''\<rparr>)"
  by (simp add: create_summary_def strip_replicate_97 silent_env_def sample_env_def
      except_Exception_simps Let_def py_or_def)

section \<open>sanitize_filename: truncation after stripping\<close>

text \<open>
  C10. The string is stripped before it is cut to 100 characters, so the cut can end on
  a space: ninety-nine letters \<open>a\<close>, a space and a \<open>b\<close> are sanitized to the ninety-nine
  letters and the space.
\<close>

theorem sanitize_filename_trailing_space:
  "sanitize_filename (replicate 99 97 @ [32, 98]) = replicate 99 97 @ [32]
   \<and> length (sanitize_filename (replicate 99 97 @ [32, 98])) = 100
   \<and> py_isspace (last (sanitize_filename (replicate 99 97 @ [32, 98])))"
proof -
  let ?s = "replicate 99 97 @ [32, 98::nat]"
  have sp: "py_isspace 32" "\<not> py_isspace 98"
    by (simp_all add: py_isspace_def)
  have m: "map (\<lambda>c. if invalid_char c then 95 else c) ?s = ?s"
    by (simp add: invalid_char_def)
  have c: "collapse_whitespace ?s = ?s"
    by (simp add: collapse_no_space sp not_space_97)
  have d1: "dropWhile py_isspace ?s = ?s"
    by (simp add: dropWhile_append3 not_space_97)
  have d2: "dropWhile py_isspace (rev ?s) = rev ?s"
    by (simp add: sp)
  have s: "strip ?s = ?s"
    unfolding strip_def d1 d2 by simp
  have r: "sanitize_filename ?s = replicate 99 97 @ [32]"
    unfolding sanitize_filename_def Let_def m c s by simp
  show ?thesis
    unfolding r by (simp add: sp)
qed

section \<open>The orchestrator: cleanup\<close>

text \<open>
  C1, as the code has it. When the URL passes validation, \<open>analyze_video\<close> runs the body of
  its \<open>try\<close> statement and then, however the body ended (a result, \<open>None\<close> from a stage, an
  exception), \<open>cleanup_temp_files\<close> on the world the body left. Afterwards the transient
  directory holds only entries whose \<open>unlink\<close> raised; when no \<open>unlink\<close> raises it is
  empty. When the URL fails validation the function returns before the \<open>try\<close> statement
  and the world is untouched.
\<close>

theorem analyze_video_cleanup:
  "(validate_youtube_url youtube_url \<longrightarrow>
      analyze_video e youtube_url summary_type target_language source_language w =
        (fst (except_Exception None
                (analyze_video_try e youtube_url summary_type target_language source_language w)),
         cleanup_temp_files e
           (snd (analyze_video_try e youtube_url summary_type target_language source_language w)))
      \<and> (\<forall>d n sz.
            temp_dir (snd (analyze_video e youtube_url summary_type target_language
                             source_language w)) = Some d
            \<and> (n, sz) \<in> set d \<longrightarrow> unlink_raises e n)
      \<and> ((\<forall>n. \<not> unlink_raises e n) \<longrightarrow>
            temp_dir (snd (analyze_video e youtube_url summary_type target_language
                             source_language w)) \<in> {None, Some []}))
   \<and> (\<not> validate_youtube_url youtube_url \<longrightarrow>
        analyze_video e youtube_url summary_type target_language source_language w
          = (Inr None, w))"
  by (auto simp: analyze_video_def Let_def split_beta snd_except_Exception
      cleanup_temp_files_def unlink_each_filter split: option.splits)

theorem analyze_video_cleanup_witness:
  "validate_youtube_url url0
   \<and> (\<forall>n. \<not> unlink_raises (sample_env (\<lambda>n. False)) n)
   \<and> temp_dir (snd (analyze_video (sample_env (\<lambda>n. False)) url0 (py ''structured'') None None
                      world0)) \<in> {None, Some []}"
proof -
  have u: "\<forall>n. \<not> unlink_raises (sample_env (\<lambda>n. False)) n"
    by (simp add: sample_env_def)
  have "temp_dir (snd (analyze_video (sample_env (\<lambda>n. False)) url0 (py ''structured'') None None
                      world0)) \<in> {None, Some []}"
    using valid_url0 u
      analyze_video_cleanup [of url0 "sample_env (\<lambda>n. False)" "py ''structured''" None None world0]
    by blast
  then show ?thesis
    using valid_url0 u by blast
qed

text \<open>
  The claim as stated fails where \<open>unlink\<close> raises: the downloaded file of the sample run
  is still in the transient directory after the run.
\<close>

theorem analyze_video_cleanup_counterexample:
  "validate_youtube_url url0
   \<and> analyze_video locking_env url0 (py ''structured'') None None world0
       = (Inr None, world_transcribed\<lparr>temp_dir := Some [(py ''Talk.mp4'', 1000000)]\<rparr>)
   \<and> temp_dir (world_transcribed\<lparr>temp_dir := Some [(py ''Talk.mp4'', 1000000)]\<rparr>)
       = Some [(py ''Talk.mp4'', 1000000)]"
  unfolding locking_env_def sample_run sample_cleanup using valid_url0 by simp

section \<open>The orchestrator: a transcript too short to summarize\<close>

text \<open>
  C2, as the code has it. A text whose stripped length is below 50 makes \<open>create_summary\<close>
  return \<open>None\<close> without a backend call. \<open>analyze_content\<close> has no minimum length: on the
  same text it returns a result whenever the backend answers. Inside \<open>analyze_video\<close>,
  however, the failed summary ends the run: \<open>None\<close> is returned and the log of calls is
  the one the transcription left, so \<open>analyze_content\<close> is not called.
\<close>

theorem summarize_too_short:
  "(length (strip txt) < 50 \<longrightarrow>
      create_summary e txt summary_type target_language w = (Inr None, w))
   \<and> (generate_content e (analysis_prompt e target_language @ analysis_heading @ take 5000 txt)
         = Inr (Inr analysis) \<longrightarrow>
       fst (analyze_content e txt target_language w) =
         Inr (Some \<lparr>a_analysis = analysis, a_model_used = model_name,
                    a_target_language = py_or target_language (py ''original'')\<rparr>))
   \<and> (validate_youtube_url youtube_url
       \<and> get_video_info e youtube_url w = (Inr (Some video_info), w1)
       \<and> download_audio e youtube_url w1 = (Inr (Some audio_path), w2)
       \<and> optimize_for_gemini e audio_path w2 = (Inr (Some converted_path), w3)
       \<and> transcribe_audio e converted_path target_language source_language w3 =
           (Inr (Some transcript_data), w4)
       \<and> length (strip (t_text transcript_data)) < 50 \<longrightarrow>
       analyze_video e youtube_url summary_type target_language source_language w =
         (Inr None, cleanup_temp_files e w4)
       \<and> calls (snd (analyze_video e youtube_url summary_type target_language source_language w))
           = calls w4)"
proof (intro conjI impI)
  assume "length (strip txt) < 50"
  then show "create_summary e txt summary_type target_language w = (Inr None, w)"
    by (simp add: create_summary_def except_Exception_simps)
next
  assume "generate_content e (analysis_prompt e target_language @ analysis_heading @ take 5000 txt)
         = Inr (Inr analysis)"
  then show "fst (analyze_content e txt target_language w) =
         Inr (Some \<lparr>a_analysis = analysis, a_model_used = model_name,
                    a_target_language = py_or target_language (py ''original'')\<rparr>)"
    by (simp add: analyze_content_def Let_def except_Exception_simps)
next
  assume a: "validate_youtube_url youtube_url
       \<and> get_video_info e youtube_url w = (Inr (Some video_info), w1)
       \<and> download_audio e youtube_url w1 = (Inr (Some audio_path), w2)
       \<and> optimize_for_gemini e audio_path w2 = (Inr (Some converted_path), w3)
       \<and> transcribe_audio e converted_path target_language source_language w3 =
           (Inr (Some transcript_data), w4)
       \<and> length (strip (t_text transcript_data)) < 50"
  then show r: "analyze_video e youtube_url summary_type target_language source_language w =
         (Inr None, cleanup_temp_files e w4)"
    using run_ends_at_summary by blast
  show "calls (snd (analyze_video e youtube_url summary_type target_language source_language w))
           = calls w4"
    unfolding r by (simp add: calls_cleanup)
qed

theorem summarize_too_short_witness:
  "length (strip (py ''This transcript has 30 chars!!'')) < 50
   \<and> create_summary (sample_env (\<lambda>n. False)) (py ''This transcript has 30 chars!!'')
         (py ''structured'') None world_transcribed = (Inr None, world_transcribed)
   \<and> generate_content (sample_env (\<lambda>n. False))
         (analysis_prompt (sample_env (\<lambda>n. False)) None @ analysis_heading
          @ take 5000 (py ''This transcript has 30 chars!!'')) = Inr (Inr (py ''Summary''))
   \<and> fst (analyze_content (sample_env (\<lambda>n. False)) (py ''This transcript has 30 chars!!'') None
            world_transcribed) =
         Inr (Some \<lparr>a_analysis = py ''Summary'', a_model_used = model_name,
                    a_target_language = py_or None (py ''original'')\<rparr>)
   \<and> validate_youtube_url url0
   \<and> get_video_info (sample_env (\<lambda>n. False)) url0 world0 = (Inr (Some sample_info), world0)
   \<and> download_audio (sample_env (\<lambda>n. False)) url0 world0 =
        (Inr (Some (Temp (py ''Talk.mp4''))), world_with (py ''Talk.mp4'') 1000000)
   \<and> optimize_for_gemini (sample_env (\<lambda>n. False)) (Temp (py ''Talk.mp4''))
        (world_with (py ''Talk.mp4'') 1000000) =
        (Inr (Some (Temp (py ''Talk_gemini_optimized.mp3''))), world_optimized)
   \<and> transcribe_audio (sample_env (\<lambda>n. False)) (Temp (py ''Talk_gemini_optimized.mp3'')) None None
        world_optimized = (Inr (Some sample_transcript), world_transcribed)
   \<and> length (strip (t_text sample_transcript)) < 50
   \<and> analyze_video (sample_env (\<lambda>n. False)) url0 (py ''structured'') None None world0 =
        (Inr None, cleanup_temp_files (sample_env (\<lambda>n. False)) world_transcribed)
   \<and> calls (snd (analyze_video (sample_env (\<lambda>n. False)) url0 (py ''structured'') None None world0))
        = calls world_transcribed"
proof -
  have g: "generate_content (sample_env (\<lambda>n. False))
         (analysis_prompt (sample_env (\<lambda>n. False)) None @ analysis_heading
          @ take 5000 (py ''This transcript has 30 chars!!'')) = Inr (Inr (py ''Summary''))"
    by (simp add: sample_env_def)
  have t: "length (strip (t_text sample_transcript)) < 50"
    by (simp add: sample_transcript_def short_transcript)
  note stages = sample_get_video_info [of "\<lambda>n. False" world0] sample_download_audio [of "\<lambda>n. False"]
    sample_optimize_for_gemini [of "\<lambda>n. False"] sample_transcribe_audio [of "\<lambda>n. False"]
  have 1: "create_summary (sample_env (\<lambda>n. False)) (py ''This transcript has 30 chars!!'')
         (py ''structured'') None world_transcribed = (Inr None, world_transcribed)"
    using short_transcript summarize_too_short by blast
  have 2: "fst (analyze_content (sample_env (\<lambda>n. False)) (py ''This transcript has 30 chars!!'') None
            world_transcribed) =
         Inr (Some \<lparr>a_analysis = py ''Summary'', a_model_used = model_name,
                    a_target_language = py_or None (py ''original'')\<rparr>)"
    using g summarize_too_short by blast
  have 3: "analyze_video (sample_env (\<lambda>n. False)) url0 (py ''structured'') None None world0 =
        (Inr None, cleanup_temp_files (sample_env (\<lambda>n. False)) world_transcribed)
   \<and> calls (snd (analyze_video (sample_env (\<lambda>n. False)) url0 (py ''structured'') None None world0))
        = calls world_transcribed"
    using valid_url0 stages t
      summarize_too_short [where youtube_url = url0 and e = "sample_env (\<lambda>n. False)"
        and w = world0 and video_info = sample_info and ?w1.0 = world0
        and audio_path = "Temp (py ''Talk.mp4'')" and ?w2.0 = "world_with (py ''Talk.mp4'') 1000000"
        and converted_path = "Temp (py ''Talk_gemini_optimized.mp3'')" and ?w3.0 = world_optimized
        and target_language = None and source_language = None
        and transcript_data = sample_transcript and ?w4.0 = world_transcribed
        and summary_type = "py ''structured''"]
    by blast
  show ?thesis
    using short_transcript g valid_url0 stages t 1 2 3 by blast
qed

text \<open>
  The claim as stated fails in the pipeline: with the thirty-character transcript of the
  sample run, the run returns \<open>None\<close> and no \<open>GenerateContent\<close> call is in the log.
\<close>

theorem analyze_after_failed_summary_counterexample:
  "length (py ''This transcript has 30 chars!!'') = 30
   \<and> analyze_video quiet_env url0 (py ''structured'') None None world0
       = (Inr None, world_transcribed\<lparr>temp_dir := Some []\<rparr>)
   \<and> calls (world_transcribed\<lparr>temp_dir := Some []\<rparr>) =
       [FfmpegRun (Temp (py ''Talk.mp4'')) (py ''Talk_gemini_optimized.mp3'') Mp3,
        UploadFile (Temp (py ''Talk_gemini_optimized.mp3'')),
        GenerateFromAudio (py ''Transcribe'') 1,
        DeleteFile 1]"
proof -
  have c: "cleanup_temp_files (sample_env (\<lambda>n. False)) world_transcribed =
             world_transcribed\<lparr>temp_dir := Some []\<rparr>"
    by (simp add: cleanup_temp_files_def world_transcribed_def sample_env_def)
  have l: "length (py ''This transcript has 30 chars!!'') = 30"
    by (simp add: py_def)
  show ?thesis
    unfolding quiet_env_def sample_run c using l by (simp add: world_transcribed_def)
qed

end
